theory Spec2Isabelle
  imports Main
begin

section \<open>Data model (inventory/models.py)\<close>

text \<open>
  The three Django models are records, and the database is a record of their tables.
  A \<^verbatim>\<open>DecimalField(max_digits=10, decimal_places=2)\<close> value is held as its integer number
  of hundredths (\<open>10.00\<close> is \<open>1000\<close>): Decimal addition, subtraction and comparison are
  exact, so they are the integer operations. The bound \<^verbatim>\<open>max_digits\<close> is not modelled.
  Primary keys are natural numbers; a foreign key is the key of the row it points to, or
  \<open>None\<close> on an instance that has none yet. \<^verbatim>\<open>transaction_date\<close> only orders listings and
  is left out; the field \<^verbatim>\<open>notes\<close> is named \<open>transaction_notes\<close>, and the field
  \<^verbatim>\<open>unit_price\<close> of a ledger line \<open>detail_unit_price\<close>.
\<close>

record product =
  product_name :: string
  product_code :: string
  description :: string
  unit_of_measure :: string
  current_stock :: int
  unit_price :: int

record transaction =
  transaction_type :: string
  reference_number :: string
  transaction_notes :: string
  created_by :: "nat option"

record transaction_detail =
  pk :: "nat option"
  transaction_id :: "nat option"
  product_id :: "nat option"
  quantity :: int
  detail_unit_price :: "int option"

record database =
  products :: "nat \<rightharpoonup> product"
  transactions :: "nat \<rightharpoonup> transaction"
  details :: "transaction_detail list"

text \<open>
  The exceptions the code can raise. \<open>ValidationError\<close> carries what the message of
  \<^verbatim>\<open>TransactionDetail.clean\<close> is built from: the product's \<^verbatim>\<open>__str__\<close>, the available
  stock and the requested quantity.
\<close>

datatype error =
  ValidationError string int int
  | DoesNotExist
  | IntegrityError
  | ValueError

text \<open>\<^verbatim>\<open>Product.__str__\<close>: \<^verbatim>\<open>f"{self.product_name} ({self.product_code})"\<close>.\<close>

definition product_str :: "product \<Rightarrow> string" where
  "product_str p = product_name p @ '' ('' @ product_code p @ '')''"

text \<open>Python's \<^verbatim>\<open>not x\<close> on a key: true of \<^verbatim>\<open>None\<close> and of \<open>0\<close>.\<close>

definition py_not :: "nat option \<Rightarrow> bool" where
  "py_not k = (k = None \<or> k = Some 0)"

text \<open>
  The attribute accesses \<^verbatim>\<open>self.transaction\<close> and \<^verbatim>\<open>self.product\<close> of a ledger line fetch
  the related row and raise when there is none.
\<close>

definition get_transaction :: "database \<Rightarrow> transaction_detail \<Rightarrow> error + transaction" where
  "get_transaction db d =
     (case transaction_id d of
        None \<Rightarrow> Inl DoesNotExist
      | Some t \<Rightarrow> (case transactions db t of None \<Rightarrow> Inl DoesNotExist | Some tr \<Rightarrow> Inr tr))"

definition get_product :: "database \<Rightarrow> transaction_detail \<Rightarrow> error + nat \<times> product" where
  "get_product db d =
     (case product_id d of
        None \<Rightarrow> Inl DoesNotExist
      | Some p \<Rightarrow> (case products db p of None \<Rightarrow> Inl DoesNotExist | Some pr \<Rightarrow> Inr (p, pr)))"

subsection \<open>Row persistence of the ORM\<close>

text \<open>\<^verbatim>\<open>product.save()\<close> on a product that has a primary key rewrites its row.\<close>

definition product_save :: "nat \<Rightarrow> product \<Rightarrow> database \<Rightarrow> database" where
  "product_save p pr db = db\<lparr>products := (products db)(p \<mapsto> pr)\<rparr>"

text \<open>A new primary key is one above the largest key of the table.\<close>

definition new_pk :: "transaction_detail list \<Rightarrow> nat" where
  "new_pk rows = Suc (foldr (\<lambda>r m. case pk r of None \<Rightarrow> m | Some k \<Rightarrow> max k m) rows 0)"

text \<open>
  The constraint \<^verbatim>\<open>unique_transaction_product\<close> of \<^verbatim>\<open>TransactionDetail.Meta\<close>: no two rows
  for the same (transaction, product) pair.
\<close>

definition violates_unique :: "transaction_detail list \<Rightarrow> transaction_detail \<Rightarrow> bool" where
  "violates_unique rows d =
     (\<exists>r \<in> set rows. transaction_id r = transaction_id d \<and> product_id r = product_id d)"

text \<open>
  \<^verbatim>\<open>super().save()\<close> of a ledger line: both foreign keys must point to rows and the pair
  must be unique, or the database raises \<^verbatim>\<open>IntegrityError\<close>. Without a primary key the
  line is inserted under a new one; with a primary key its row is rewritten, or inserted
  under that key when there is no such row.
\<close>

definition model_save :: "transaction_detail \<Rightarrow> database \<Rightarrow> (error + nat) \<times> database" where
  "model_save d db =
     (case (transaction_id d, product_id d) of
        (Some t, Some p) \<Rightarrow>
          if transactions db t = None \<or> products db p = None then (Inl IntegrityError, db)
          else (case pk d of
             None \<Rightarrow>
               if violates_unique (details db) d then (Inl IntegrityError, db)
               else (let k = new_pk (details db)
                     in (Inr k, db\<lparr>details := details db @ [d\<lparr>pk := Some k\<rparr>]\<rparr>))
           | Some k \<Rightarrow>
               if violates_unique (filter (\<lambda>r. pk r \<noteq> Some k) (details db)) d
               then (Inl IntegrityError, db)
               else if (\<exists>r \<in> set (details db). pk r = Some k)
               then (Inr k, db\<lparr>details := map (\<lambda>r. if pk r = Some k then d else r) (details db)\<rparr>)
               else (Inr k, db\<lparr>details := details db @ [d]\<rparr>))
      | _ \<Rightarrow> (Inl IntegrityError, db))"

text \<open>
  \<^verbatim>\<open>super().delete()\<close> of a ledger line removes the row with its primary key; an instance
  without a primary key cannot be deleted.
\<close>

definition model_delete :: "transaction_detail \<Rightarrow> database \<Rightarrow> (error + unit) \<times> database" where
  "model_delete d db =
     (case pk d of
        None \<Rightarrow> (Inl ValueError, db)
      | Some k \<Rightarrow> (Inr (), db\<lparr>details := filter (\<lambda>r. pk r \<noteq> Some k) (details db)\<rparr>))"

subsection \<open>TransactionDetail.clean, save and delete\<close>

text \<open>
  \<^verbatim>\<open>clean\<close> returns at once when the line has no transaction; for a transaction of type
  \<^verbatim>\<open>sale\<close> it raises when the product's stock is below the quantity.
\<close>

definition TransactionDetail_clean :: "database \<Rightarrow> transaction_detail \<Rightarrow> error + unit" where
  "TransactionDetail_clean db d =
     (if py_not (transaction_id d) then Inr ()
      else (case get_transaction db d of
          Inl e \<Rightarrow> Inl e
        | Inr tr \<Rightarrow>
            if transaction_type tr \<in> set [''sale''] then
              (case get_product db d of
                 Inl e \<Rightarrow> Inl e
               | Inr (p, pr) \<Rightarrow>
                   if current_stock pr < quantity d
                   then Inl (ValidationError (product_str pr) (current_stock pr) (quantity d))
                   else Inr ())
            else Inr ()))"

text \<open>
  \<^verbatim>\<open>save\<close>: a line without a primary key is new. It is validated, the product's stock is
  moved by the quantity (up for purchase, return and adjustment, down otherwise), the
  product's price is overwritten when the line has one, the product is saved, and then the
  line itself is saved. A line with a primary key is only saved. The result pairs what the
  call returned or raised with the database it leaves: each ORM call commits on its own, so
  a product row written before a later exception stays written.
\<close>

definition TransactionDetail_save ::
  "transaction_detail \<Rightarrow> database \<Rightarrow> (error + nat) \<times> database" where
  "TransactionDetail_save d db =
     (if py_not (pk d) then
        (case TransactionDetail_clean db d of
           Inl e \<Rightarrow> (Inl e, db)
         | Inr _ \<Rightarrow>
            (case get_product db d of
               Inl e \<Rightarrow> (Inl e, db)
             | Inr (p, pr) \<Rightarrow>
                (case get_transaction db d of
                   Inl e \<Rightarrow> (Inl e, db)
                 | Inr tr \<Rightarrow>
                    (let pr1 = (if transaction_type tr \<in> set [''purchase'', ''return'', ''adjustment'']
                                then pr\<lparr>current_stock := current_stock pr + quantity d\<rparr>
                                else pr\<lparr>current_stock := current_stock pr - quantity d\<rparr>);
                         pr2 = (case detail_unit_price d of
                                  Some v \<Rightarrow> pr1\<lparr>unit_price := v\<rparr>
                                | None \<Rightarrow> pr1)
                     in model_save d (product_save p pr2 db)))))
      else model_save d db)"

text \<open>
  \<^verbatim>\<open>delete\<close>: the product's stock is moved back by the quantity (down for purchase, return
  and adjustment, up otherwise), the product is saved, and the line is removed.
\<close>

definition TransactionDetail_delete ::
  "transaction_detail \<Rightarrow> database \<Rightarrow> (error + unit) \<times> database" where
  "TransactionDetail_delete d db =
     (case get_product db d of
        Inl e \<Rightarrow> (Inl e, db)
      | Inr (p, pr) \<Rightarrow>
         (case get_transaction db d of
            Inl e \<Rightarrow> (Inl e, db)
          | Inr tr \<Rightarrow>
             (let pr1 = (if transaction_type tr \<in> set [''purchase'', ''return'', ''adjustment'']
                         then pr\<lparr>current_stock := current_stock pr - quantity d\<rparr>
                         else pr\<lparr>current_stock := current_stock pr + quantity d\<rparr>)
              in model_delete d (product_save p pr1 db))))"


text \<open>
  A new line as \<^verbatim>\<open>TransactionDetail.objects.create(transaction=..., product=...,
  quantity=..., unit_price=...)\<close> builds it before calling \<^verbatim>\<open>save\<close>.
\<close>

definition new_line :: "nat \<Rightarrow> nat \<Rightarrow> int \<Rightarrow> int option \<Rightarrow> transaction_detail" where
  "new_line t p q u =
     \<lparr>pk = None, transaction_id = Some t, product_id = Some p, quantity = q,
      detail_unit_price = u\<rparr>"

subsection \<open>Sequences of creations and deletions\<close>

text \<open>
  A ledger operation creates a line or deletes the stored line with a given primary key
  (the instance is fetched first, which raises when there is no such row).
\<close>

datatype ledger_op = Create nat nat int "int option" | Delete nat

fun apply_op :: "ledger_op \<Rightarrow> database \<Rightarrow> (error + unit) \<times> database" where
  "apply_op (Create t p q u) db =
     (case TransactionDetail_save (new_line t p q u) db of
        (Inl e, db') \<Rightarrow> (Inl e, db')
      | (Inr k, db') \<Rightarrow> (Inr (), db'))"
| "apply_op (Delete k) db =
     (case find (\<lambda>r. pk r = Some k) (details db) of
        None \<Rightarrow> (Inl DoesNotExist, db)
      | Some d \<Rightarrow> TransactionDetail_delete d db)"

fun run_ops :: "ledger_op list \<Rightarrow> database \<Rightarrow> database" where
  "run_ops [] db = db"
| "run_ops (x # xs) db = run_ops xs (snd (apply_op x db))"

text \<open>
  No operation of the run is turned down by the database (\<^verbatim>\<open>IntegrityError\<close>): every
  creation that passes validation does create its line.
\<close>

fun no_integrity_error :: "ledger_op list \<Rightarrow> database \<Rightarrow> bool" where
  "no_integrity_error [] db = True"
| "no_integrity_error (x # xs) db =
     (fst (apply_op x db) \<noteq> Inl IntegrityError \<and> no_integrity_error xs (snd (apply_op x db)))"

subsection \<open>The ledger sum\<close>

text \<open>
  The signed quantity of a ledger line: positive when its transaction's type is purchase,
  return or adjustment, negative otherwise, which for the fourth type of
  \<^verbatim>\<open>TRANSACTION_TYPES\<close> is sale. The ledger sum of a product adds the signed quantities of
  its lines, and the stock is consistent when every product's \<^verbatim>\<open>current_stock\<close> is its
  ledger sum.
\<close>

definition signed_quantity :: "database \<Rightarrow> transaction_detail \<Rightarrow> int" where
  "signed_quantity db d =
     (case get_transaction db d of
        Inl e \<Rightarrow> 0
      | Inr tr \<Rightarrow>
          if transaction_type tr \<in> set [''purchase'', ''return'', ''adjustment'']
          then quantity d else - quantity d)"

definition lines_of :: "database \<Rightarrow> nat \<Rightarrow> transaction_detail list" where
  "lines_of db p = filter (\<lambda>r. product_id r = Some p) (details db)"

definition ledger_sum :: "database \<Rightarrow> nat \<Rightarrow> int" where
  "ledger_sum db p = sum_list (map (signed_quantity db) (lines_of db p))"

definition stock_consistent :: "database \<Rightarrow> bool" where
  "stock_consistent db =
     (\<forall>p pr. products db p = Some pr \<longrightarrow> current_stock pr = ledger_sum db p)"

text \<open>Every stored line has a primary key, and no two lines share one.\<close>

definition pks_ok :: "database \<Rightarrow> bool" where
  "pks_ok db = (distinct (map pk (details db)) \<and> None \<notin> set (map pk (details db)))"

section \<open>Views (inventory/views.py)\<close>

text \<open>
  A request carries its user and its method (\<^verbatim>\<open>request.method\<close>, here
  \<open>http_method\<close>). \<^verbatim>\<open>AnonymousUser\<close> is neither authenticated nor staff; a logged-in
  user has a primary key and the \<^verbatim>\<open>is_staff\<close> flag.
\<close>

datatype request_user = AnonymousUser | User nat bool

fun is_authenticated :: "request_user \<Rightarrow> bool" where
  "is_authenticated AnonymousUser = False"
| "is_authenticated (User uid staff) = True"

fun is_staff :: "request_user \<Rightarrow> bool" where
  "is_staff AnonymousUser = False"
| "is_staff (User uid staff) = staff"

record request =
  user :: request_user
  http_method :: string

datatype response = Redirect string | Http404

datatype message = MessageSuccess string | MessageError string

text \<open>
  \<^verbatim>\<open>transaction.created_by == request.user\<close>: model instances are equal when their primary
  keys are; a transaction without creator equals no user.
\<close>

fun created_by_is :: "nat option \<Rightarrow> request_user \<Rightarrow> bool" where
  "created_by_is (Some c) (User uid staff) = (c = uid)"
| "created_by_is c u = False"

text \<open>
  \<^verbatim>\<open>transaction.delete()\<close>: \<^verbatim>\<open>Transaction\<close> does not override \<^verbatim>\<open>delete\<close>, so this is the
  ORM's deletion. It follows \<^verbatim>\<open>on_delete=models.CASCADE\<close> of
  \<^verbatim>\<open>TransactionDetail.transaction\<close> and removes the transaction's ledger lines with the
  transaction. The ORM removes cascaded rows itself: it does not call the \<^verbatim>\<open>delete\<close> method
  of the related model, so \<^verbatim>\<open>TransactionDetail.delete\<close> does not run for them.
\<close>

definition Transaction_delete :: "nat \<Rightarrow> database \<Rightarrow> database" where
  "Transaction_delete t db =
     db\<lparr>details := filter (\<lambda>r. transaction_id r \<noteq> Some t) (details db),
        transactions := (transactions db)(t := None)\<rparr>"

text \<open>
  The view \<^verbatim>\<open>transaction_delete\<close>. It returns the response, the messages it added and
  the database it leaves.
\<close>

definition transaction_delete ::
  "request \<Rightarrow> nat \<Rightarrow> database \<Rightarrow> response \<times> message list \<times> database" where
  "transaction_delete request t db =
     (if \<not> is_authenticated (user request) then (Redirect ''login'', [], db)
      else (case transactions db t of
          None \<Rightarrow> (Http404, [], db)
        | Some tr \<Rightarrow>
            if http_method request = ''POST'' then
              (if is_staff (user request) \<or> created_by_is (created_by tr) (user request)
               then (Redirect ''transaction_list'',
                     [MessageSuccess ''Transaction deleted successfully''],
                     Transaction_delete t db)
               else (Redirect ''transaction_list'',
                     [MessageError ''You do not have permission to delete this transaction''],
                     db))
            else (Redirect ''transaction_list'', [], db)))"

subsection \<open>Stock report\<close>

text \<open>
  SQL's \<^verbatim>\<open>SUM\<close> over the rows of a group: \<^verbatim>\<open>NULL\<close> when there is no row. The
  \<^verbatim>\<open>Case(When(...), default=Value(0))\<close> expression of both views gives the line's quantity
  when the type of its transaction is in the list and \<open>0\<close> otherwise, also on the
  all-\<^verbatim>\<open>NULL\<close> row of an outer join.
\<close>

definition Sum :: "int list \<Rightarrow> int option" where
  "Sum xs = (if xs = [] then None else Some (sum_list xs))"

definition Case_When :: "string list \<Rightarrow> database \<Rightarrow> transaction_detail option \<Rightarrow> int" where
  "Case_When types db row =
     (case row of
        None \<Rightarrow> 0
      | Some r \<Rightarrow>
          (case get_transaction db r of
             Inl e \<Rightarrow> 0
           | Inr tr \<Rightarrow> if transaction_type tr \<in> set types then quantity r else 0))"

text \<open>
  \<^verbatim>\<open>Product.objects.annotate(...)\<close> joins each product to its ledger lines with a left outer
  join: one row for each line, or a single row without line for a product that has none.
\<close>

definition joined_rows :: "database \<Rightarrow> nat \<Rightarrow> transaction_detail option list" where
  "joined_rows db p =
     (case lines_of db p of [] \<Rightarrow> [None] | r # rs \<Rightarrow> map Some (r # rs))"

text \<open>
  \<^verbatim>\<open>inventory_report\<close>: every product with its annotations \<^verbatim>\<open>total_in\<close> and
  \<^verbatim>\<open>total_out\<close>, given as a map from the product's key (the order of the listing is not
  modelled, nor is \<^verbatim>\<open>total_value\<close>, a floating-point sum).
\<close>

definition inventory_report ::
  "request \<Rightarrow> database \<Rightarrow> response + (nat \<rightharpoonup> product \<times> int option \<times> int option)" where
  "inventory_report request db =
     (if \<not> is_authenticated (user request) then Inl (Redirect ''login'')
      else Inr (\<lambda>p. case products db p of
          None \<Rightarrow> None
        | Some pr \<Rightarrow>
            Some (pr,
              Sum (map (Case_When [''purchase'', ''return'', ''adjustment''] db) (joined_rows db p)),
              Sum (map (Case_When [''sale''] db) (joined_rows db p)))))"

text \<open>
  \<^verbatim>\<open>ProductStockMovementsView.get_context_data\<close>: the product's lines, aggregated; an
  aggregate that is \<^verbatim>\<open>None\<close> or zero is replaced by \<open>0\<close> (\<^verbatim>\<open>totals['total_in'] or 0\<close>).
\<close>

definition or_0 :: "int option \<Rightarrow> int" where
  "or_0 v = (case v of None \<Rightarrow> 0 | Some x \<Rightarrow> if x = 0 then 0 else x)"

record movements_context =
  movements :: "transaction_detail list"
  total_in :: int
  total_out :: int

definition get_context_data :: "request \<Rightarrow> nat \<Rightarrow> database \<Rightarrow> response + movements_context" where
  "get_context_data request p db =
     (if \<not> is_authenticated (user request) then Inl (Redirect ''login'')
      else (case products db p of
          None \<Rightarrow> Inl Http404
        | Some pr \<Rightarrow>
            (let lines = lines_of db p;
                 totals_in = Sum (map (Case_When [''purchase'', ''return'', ''adjustment''] db)
                                   (map Some lines));
                 totals_out = Sum (map (Case_When [''sale''] db) (map Some lines))
             in Inr \<lparr>movements = lines, total_in = or_0 totals_in,
                     total_out = or_0 totals_out\<rparr>)))"

section \<open>Forms (inventory/forms.py)\<close>

text \<open>
  \<^verbatim>\<open>TransactionDetailForm.__init__\<close> sets the initial value shown in the field
  \<^verbatim>\<open>unit_price\<close> to the price of the instance's product; reading the product of an instance
  that has none raises.
\<close>

definition TransactionDetailForm_initial_unit_price ::
  "database \<Rightarrow> transaction_detail \<Rightarrow> error + int" where
  "TransactionDetailForm_initial_unit_price db instance =
     (case get_product db instance of
        Inl e \<Rightarrow> Inl e
      | Inr (p, pr) \<Rightarrow> Inr (unit_price pr))"

section \<open>Auxiliary definitions\<close>

text \<open>
  The amount by which creating a line of quantity \<open>q\<close> under transaction \<open>tr\<close> moves the
  stock, and the product row that \<^verbatim>\<open>save\<close> writes for a new line.
\<close>

definition delta :: "transaction \<Rightarrow> int \<Rightarrow> int" where
  "delta tr q = (if transaction_type tr \<in> set [''purchase'', ''return'', ''adjustment''] then q else - q)"

definition moved :: "transaction \<Rightarrow> product \<Rightarrow> int \<Rightarrow> int option \<Rightarrow> product" where
  "moved tr pr q u =
     (let pr1 = (if transaction_type tr \<in> set [''purchase'', ''return'', ''adjustment'']
                 then pr\<lparr>current_stock := current_stock pr + q\<rparr>
                 else pr\<lparr>current_stock := current_stock pr - q\<rparr>)
      in case u of Some v \<Rightarrow> pr1\<lparr>unit_price := v\<rparr> | None \<Rightarrow> pr1)"

text \<open>
  The scenario of the specification: product A with stock \<open>0\<close> and price \<open>2.50\<close>, a
  purchase transaction (key 1) and a sale transaction (key 2), both created by user 7, and
  no ledger line yet.
\<close>

definition product_A :: product where
  "product_A = \<lparr>product_name = ''A'', product_code = ''PROD-001'', description = [],
                 unit_of_measure = ''pcs'', current_stock = 0, unit_price = 250\<rparr>"

definition purchase_tx :: "transaction" where
  "purchase_tx = \<lparr>transaction_type = ''purchase'', reference_number = ''PO-1'',
                   transaction_notes = [], created_by = Some 7\<rparr>"

definition sale_tx :: "transaction" where
  "sale_tx = \<lparr>transaction_type = ''sale'', reference_number = ''INV-1'',
               transaction_notes = [], created_by = Some 7\<rparr>"

definition scenario_db :: database where
  "scenario_db =
     \<lparr>products = [1 \<mapsto> product_A],
      transactions = [1 \<mapsto> purchase_tx, 2 \<mapsto> sale_tx],
      details = []\<rparr>"

text \<open>
  The operations of the scenario: a purchase line of \<open>10.00\<close>, a sale line of \<open>15.00\<close>, a
  sale line of \<open>4.00\<close>, and the deletion of the line with key 1 (the purchase line).
\<close>

definition scenario_ops :: "ledger_op list" where
  "scenario_ops =
     [Create 1 1 1000 None, Create 2 1 1500 None, Create 2 1 400 None, Delete 1]"

text \<open>
  The two lines the scenario stores, the database after the purchase line, and the database
  after the purchase line and the sale line.
\<close>

definition purchase_line :: transaction_detail where
  "purchase_line = \<lparr>pk = Some 1, transaction_id = Some 1, product_id = Some 1,
                     quantity = 1000, detail_unit_price = None\<rparr>"

definition sale_line :: transaction_detail where
  "sale_line = \<lparr>pk = Some 2, transaction_id = Some 2, product_id = Some 1,
                 quantity = 400, detail_unit_price = None\<rparr>"

definition stocked_db :: database where
  "stocked_db =
     \<lparr>products = [1 \<mapsto> product_A\<lparr>current_stock := 1000\<rparr>],
      transactions = [1 \<mapsto> purchase_tx, 2 \<mapsto> sale_tx],
      details = [purchase_line]\<rparr>"

definition traded_db :: database where
  "traded_db =
     \<lparr>products = [1 \<mapsto> product_A\<lparr>current_stock := 600\<rparr>],
      transactions = [1 \<mapsto> purchase_tx, 2 \<mapsto> sale_tx],
      details = [purchase_line, sale_line]\<rparr>"

text \<open>The stock of a product, when there is such a product.\<close>

definition stock_of :: "database \<Rightarrow> nat \<Rightarrow> int option" where
  "stock_of db p = map_option current_stock (products db p)"

text \<open>
  The total the specification gives for a report: the sum of the quantities of the
  product's ledger lines whose transaction has one of the given types.
\<close>

definition has_type :: "database \<Rightarrow> string list \<Rightarrow> transaction_detail \<Rightarrow> bool" where
  "has_type db types r =
     (case get_transaction db r of Inl e \<Rightarrow> False | Inr tr \<Rightarrow> transaction_type tr \<in> set types)"

definition total_quantity :: "database \<Rightarrow> string list \<Rightarrow> nat \<Rightarrow> int" where
  "total_quantity db types p =
     sum_list (map quantity (filter (has_type db types) (lines_of db p)))"

section \<open>Lemmas on the persistence of ledger lines\<close>


lemma new_pk_greater: "Some k \<in> set (map pk rows) \<Longrightarrow> k < new_pk rows"
  unfolding new_pk_def
  by (induction rows) (auto split: option.splits)

lemma new_pk_fresh: "Some (new_pk rows) \<notin> set (map pk rows)"
  using new_pk_greater [of "new_pk rows" rows] by auto

lemma sum_filter_remove:
  "distinct (map pk rows) \<Longrightarrow> d \<in> set rows \<Longrightarrow>
   sum_list (map f (filter P rows)) =
   sum_list (map f (filter P (filter (\<lambda>r. pk r \<noteq> pk d) rows))) + (if P d then f d else (0::int))"
proof (induction rows)
  case Nil
  then show ?case by simp
next
  case (Cons r rows)
  show ?case
  proof (cases "r = d")
    case True
    with Cons.prems have "\<forall>x \<in> set rows. pk x \<noteq> pk d" by (auto simp: image_iff)
    then have "filter (\<lambda>r. pk r \<noteq> pk d) rows = rows" by (simp add: filter_id_conv)
    with True show ?thesis by simp
  next
    case False
    with Cons.prems have "d \<in> set rows" "pk r \<noteq> pk d" by (auto simp: image_iff)
    with Cons show ?thesis by simp
  qed
qed

lemma get_transaction_cong:
  assumes "transactions db' = transactions db"
  shows "get_transaction db' d = get_transaction db d"
  unfolding get_transaction_def assms ..

lemma signed_quantity_cong:
  assumes "transactions db' = transactions db"
  shows "signed_quantity db' = signed_quantity db"
  by (rule ext) (simp add: signed_quantity_def get_transaction_cong [OF assms])


lemma save_new_eq:
  "TransactionDetail_save (new_line t p q u) db =
    (case products db p of
       None \<Rightarrow> (Inl DoesNotExist, db)
     | Some pr \<Rightarrow>
        (case transactions db t of
           None \<Rightarrow> (Inl DoesNotExist, db)
         | Some tr \<Rightarrow>
            if t \<noteq> 0 \<and> transaction_type tr = ''sale'' \<and> current_stock pr < q
            then (Inl (ValidationError (product_str pr) (current_stock pr) q), db)
            else if violates_unique (details db) (new_line t p q u)
            then (Inl IntegrityError, db\<lparr>products := (products db)(p \<mapsto> moved tr pr q u)\<rparr>)
            else (Inr (new_pk (details db)),
                  db\<lparr>products := (products db)(p \<mapsto> moved tr pr q u),
                     details := details db @ [(new_line t p q u)\<lparr>pk := Some (new_pk (details db))\<rparr>]\<rparr>)))"
  by (auto simp: TransactionDetail_save_def TransactionDetail_clean_def get_transaction_def
      get_product_def py_not_def new_line_def model_save_def product_save_def moved_def Let_def
      split: option.splits)


lemma current_stock_moved: "current_stock (moved tr pr q u) = current_stock pr + delta tr q"
  by (simp add: moved_def delta_def Let_def split: option.splits)

lemma signed_quantity_eq:
  "transaction_id d = Some t \<Longrightarrow> transactions db t = Some tr \<Longrightarrow>
   signed_quantity db d = delta tr (quantity d)"
  by (simp add: signed_quantity_def get_transaction_def delta_def)

lemma ledger_sum_append:
  assumes "transactions db' = transactions db" and "details db' = details db @ [d]"
  shows "ledger_sum db' p' =
         ledger_sum db p' + (if product_id d = Some p' then signed_quantity db d else 0)"
  by (simp add: ledger_sum_def lines_of_def signed_quantity_cong [OF assms(1)] assms(2))

lemma ledger_sum_remove:
  assumes "distinct (map pk (details db))" and "d \<in> set (details db)"
    and "transactions db' = transactions db"
    and "details db' = filter (\<lambda>r. pk r \<noteq> pk d) (details db)"
  shows "ledger_sum db' p' =
         ledger_sum db p' - (if product_id d = Some p' then signed_quantity db d else 0)"
  using sum_filter_remove [OF assms(1,2), of "signed_quantity db" "\<lambda>r. product_id r = Some p'"]
  by (simp add: ledger_sum_def lines_of_def signed_quantity_cong [OF assms(3)] assms(4))

lemma create_consistent:
  assumes "stock_consistent db"
    and "fst (TransactionDetail_save (new_line t p q u) db) \<noteq> Inl IntegrityError"
  shows "stock_consistent (snd (TransactionDetail_save (new_line t p q u) db))"
proof (cases "products db p")
  case None
  with assms show ?thesis by (simp add: save_new_eq)
next
  case (Some pr)
  note pr = this
  show ?thesis
  proof (cases "transactions db t")
    case None
    with pr assms show ?thesis by (simp add: save_new_eq)
  next
    case (Some tr)
    note tr = this
    show ?thesis
    proof (cases "t \<noteq> 0 \<and> transaction_type tr = ''sale'' \<and> current_stock pr < q")
      case True
      with pr tr assms show ?thesis by (simp add: save_new_eq)
    next
      case False
      note ok = this
      with pr tr assms(2) have nv: "\<not> violates_unique (details db) (new_line t p q u)"
        by (auto simp: save_new_eq split: if_splits)
      let ?line = "(new_line t p q u)\<lparr>pk := Some (new_pk (details db))\<rparr>"
      let ?db' = "db\<lparr>products := (products db)(p \<mapsto> moved tr pr q u),
                     details := details db @ [?line]\<rparr>"
      have res: "snd (TransactionDetail_save (new_line t p q u) db) = ?db'"
        using pr tr ok nv by (auto simp: save_new_eq)
      have sq: "signed_quantity db ?line = delta tr q"
        using tr by (simp add: signed_quantity_eq [of _ t] new_line_def)
      have ls: "ledger_sum ?db' p' = ledger_sum db p' + (if p = p' then delta tr q else 0)" for p'
        using ledger_sum_append [of ?db' db ?line p'] tr
        by (simp add: signed_quantity_eq [of _ t] new_line_def)
      show ?thesis
        unfolding res stock_consistent_def
      proof (intro allI impI)
        fix p' pr'
        assume a: "products ?db' p' = Some pr'"
        show "current_stock pr' = ledger_sum ?db' p'"
        proof (cases "p' = p")
          case True
          with a have "current_stock pr' = current_stock pr + delta tr q"
            by (auto simp: current_stock_moved)
          moreover from assms(1) pr have "current_stock pr = ledger_sum db p"
            by (simp add: stock_consistent_def)
          moreover have "ledger_sum ?db' p' = ledger_sum db p + delta tr q"
            using ls [of p'] True by simp
          ultimately show ?thesis by linarith
        next
          case False
          with a have "products db p' = Some pr'" by simp
          with assms(1) have "current_stock pr' = ledger_sum db p'"
            by (simp add: stock_consistent_def)
          with False show ?thesis by (simp add: ls)
        qed
      qed
    qed
  qed
qed


lemma create_pks_ok:
  assumes "pks_ok db"
  shows "pks_ok (snd (TransactionDetail_save (new_line t p q u) db))"
  using assms new_pk_fresh [of "details db"]
  by (auto simp: save_new_eq pks_ok_def split: option.splits)

lemma delete_eq:
  "TransactionDetail_delete d db =
    (case product_id d of
       None \<Rightarrow> (Inl DoesNotExist, db)
     | Some p \<Rightarrow>
        (case products db p of
           None \<Rightarrow> (Inl DoesNotExist, db)
         | Some pr \<Rightarrow>
            (case transaction_id d of
               None \<Rightarrow> (Inl DoesNotExist, db)
             | Some t \<Rightarrow>
                (case transactions db t of
                   None \<Rightarrow> (Inl DoesNotExist, db)
                 | Some tr \<Rightarrow>
                    (let db1 = db\<lparr>products := (products db)
                                 (p \<mapsto> pr\<lparr>current_stock := current_stock pr - delta tr (quantity d)\<rparr>)\<rparr>
                     in case pk d of
                          None \<Rightarrow> (Inl ValueError, db1)
                        | Some k \<Rightarrow>
                            (Inr (), db1\<lparr>details := filter (\<lambda>r. pk r \<noteq> Some k) (details db)\<rparr>))))))"
  by (auto simp: TransactionDetail_delete_def get_transaction_def get_product_def
      model_delete_def product_save_def delta_def Let_def split: option.splits)

lemma delete_pks_ok:
  assumes "pks_ok db"
  shows "pks_ok (snd (TransactionDetail_delete d db))"
  using assms
  by (auto simp: delete_eq pks_ok_def Let_def distinct_map_filter split: option.splits)

lemma delete_consistent:
  assumes "pks_ok db" and "stock_consistent db" and "d \<in> set (details db)"
  shows "stock_consistent (snd (TransactionDetail_delete d db))"
proof (cases "fst (TransactionDetail_delete d db)")
  case (Inl e)
  from assms(1,3) have "pk d \<noteq> None"
    unfolding pks_ok_def by (metis image_eqI set_map)
  with Inl have "snd (TransactionDetail_delete d db) = db"
    by (auto simp: delete_eq Let_def split: option.splits)
  with assms(2) show ?thesis by simp
next
  case (Inr u)
  then obtain p pr t tr k where p: "product_id d = Some p" and pr: "products db p = Some pr"
    and t: "transaction_id d = Some t" and tr: "transactions db t = Some tr"
    and k: "pk d = Some k"
    by (auto simp: delete_eq Let_def split: option.splits)
  let ?pr' = "pr\<lparr>current_stock := current_stock pr - delta tr (quantity d)\<rparr>"
  let ?db' = "db\<lparr>products := (products db)(p \<mapsto> ?pr'),
                 details := filter (\<lambda>r. pk r \<noteq> Some k) (details db)\<rparr>"
  have res: "snd (TransactionDetail_delete d db) = ?db'"
    using p pr t tr k by (simp add: delete_eq)
  from assms(1) have dist: "distinct (map pk (details db))" by (simp add: pks_ok_def)
  have ls: "ledger_sum ?db' p' = ledger_sum db p' - (if p = p' then delta tr (quantity d) else 0)" for p'
    using ledger_sum_remove [OF dist assms(3), of ?db' p'] p t tr k
    by (simp add: signed_quantity_eq [of d t db tr])
  show ?thesis
    unfolding res stock_consistent_def
  proof (intro allI impI)
    fix p' pr'
    assume a: "products ?db' p' = Some pr'"
    show "current_stock pr' = ledger_sum ?db' p'"
    proof (cases "p' = p")
      case True
      with a have "current_stock pr' = current_stock pr - delta tr (quantity d)" by auto
      moreover from assms(2) pr have "current_stock pr = ledger_sum db p"
        by (simp add: stock_consistent_def)
      moreover have "ledger_sum ?db' p' = ledger_sum db p - delta tr (quantity d)"
        using ls [of p'] True by simp
      ultimately show ?thesis by linarith
    next
      case False
      with a have "products db p' = Some pr'" by simp
      with assms(2) have "current_stock pr' = ledger_sum db p'"
        by (simp add: stock_consistent_def)
      with False show ?thesis by (simp add: ls)
    qed
  qed
qed

lemma apply_op_preserves:
  assumes "pks_ok db" and "stock_consistent db" and "fst (apply_op x db) \<noteq> Inl IntegrityError"
  shows "pks_ok (snd (apply_op x db)) \<and> stock_consistent (snd (apply_op x db))"
proof (cases x)
  case (Create t p q u)
  obtain r db' where s: "TransactionDetail_save (new_line t p q u) db = (r, db')"
    by (cases "TransactionDetail_save (new_line t p q u) db")
  with assms(3) Create have ne: "fst (TransactionDetail_save (new_line t p q u) db) \<noteq> Inl IntegrityError"
    by (auto split: sum.splits)
  from s Create have "snd (apply_op x db) = snd (TransactionDetail_save (new_line t p q u) db)"
    by (auto split: sum.splits)
  with create_pks_ok [OF assms(1), of t p q u] create_consistent [OF assms(2) ne]
  show ?thesis by simp
next
  case (Delete k)
  show ?thesis
  proof (cases "find (\<lambda>r. pk r = Some k) (details db)")
    case None
    with Delete assms show ?thesis by simp
  next
    case (Some d)
    then have "d \<in> set (details db)"
      by (auto simp: find_Some_iff)
    with Some Delete delete_pks_ok [OF assms(1), of d] delete_consistent [OF assms(1,2), of d]
    show ?thesis by simp
  qed
qed

lemma run_ops_preserves:
  "pks_ok db \<Longrightarrow> stock_consistent db \<Longrightarrow> no_integrity_error ops db \<Longrightarrow>
   pks_ok (run_ops ops db) \<and> stock_consistent (run_ops ops db)"
proof (induction ops arbitrary: db)
  case Nil
  then show ?case by simp
next
  case (Cons x xs)
  from Cons.prems have "fst (apply_op x db) \<noteq> Inl IntegrityError"
    and rest: "no_integrity_error xs (snd (apply_op x db))" by simp_all
  with apply_op_preserves [of db x] Cons.prems(1,2)
  have "pks_ok (snd (apply_op x db))" "stock_consistent (snd (apply_op x db))" by simp_all
  with Cons.IH rest show ?case by simp
qed

lemma stored_pk: "pks_ok db \<Longrightarrow> d \<in> set (details db) \<Longrightarrow> \<exists>k. pk d = Some k"
  unfolding pks_ok_def by (metis image_eqI not_None_eq set_map)

lemma model_save_products: "products (snd (model_save d db)) = products db"
  by (auto simp: model_save_def Let_def split: option.splits)

lemma Transaction_delete_products: "products (Transaction_delete t db) = products db"
  by (simp add: Transaction_delete_def)

lemma form_initial_unit_price:
  "products db p = Some pr \<Longrightarrow>
   TransactionDetailForm_initial_unit_price db (new_line t p q u) = Inr (unit_price pr)"
  by (simp add: TransactionDetailForm_initial_unit_price_def get_product_def new_line_def)

section \<open>Lemmas on the report queries\<close>

lemma sum_Case_When:
  "sum_list (map (Case_When types db) (map Some rs)) =
   sum_list (map quantity (filter (has_type db types) rs))"
  by (induction rs) (auto simp: Case_When_def has_type_def split: sum.splits)

lemma Sum_joined_rows:
  "Sum (map (Case_When types db) (joined_rows db p)) = Some (total_quantity db types p)"
proof (cases "lines_of db p")
  case Nil
  then show ?thesis
    by (simp add: joined_rows_def Sum_def Case_When_def total_quantity_def)
next
  case (Cons r rs)
  then have "joined_rows db p = map Some (lines_of db p)"
    by (simp add: joined_rows_def)
  with Cons sum_Case_When [of types db "lines_of db p"] show ?thesis
    by (simp add: Sum_def total_quantity_def)
qed

lemma or_0_Sum:
  "or_0 (Sum (map (Case_When types db) (map Some (lines_of db p)))) = total_quantity db types p"
proof (cases "lines_of db p")
  case Nil
  then show ?thesis by (simp add: or_0_def Sum_def total_quantity_def)
next
  case (Cons r rs)
  with sum_Case_When [of types db "lines_of db p"] show ?thesis
    by (simp add: or_0_def Sum_def total_quantity_def)
qed

section \<open>The scenario, evaluated\<close>

lemmas eval_defs =
  TransactionDetail_save_def TransactionDetail_clean_def TransactionDetail_delete_def
  get_transaction_def get_product_def py_not_def new_line_def model_save_def model_delete_def
  product_save_def violates_unique_def new_pk_def Let_def

lemmas scenario_defs =
  scenario_db_def stocked_db_def traded_db_def product_A_def purchase_tx_def sale_tx_def
  purchase_line_def sale_line_def

lemma scenario_pks_ok: "pks_ok scenario_db"
  by (simp add: pks_ok_def scenario_db_def)

lemma scenario_consistent: "stock_consistent scenario_db"
  by (simp add: stock_consistent_def scenario_db_def ledger_sum_def lines_of_def product_A_def)

lemma scenario_no_integrity_error: "no_integrity_error scenario_ops scenario_db"
  by (simp add: scenario_ops_def eval_defs scenario_defs)

lemma run_scenario_1: "run_ops (take 1 scenario_ops) scenario_db = stocked_db"
  by (simp add: scenario_ops_def eval_defs scenario_defs)

lemma run_scenario_2: "run_ops (take 2 scenario_ops) scenario_db = stocked_db"
  by (simp add: scenario_ops_def eval_defs scenario_defs)

lemma run_scenario_3: "run_ops (take 3 scenario_ops) scenario_db = traded_db"
  by (simp add: scenario_ops_def eval_defs scenario_defs)

lemma run_scenario:
  "run_ops scenario_ops scenario_db =
     traded_db\<lparr>products := [1 \<mapsto> product_A\<lparr>current_stock := - 400\<rparr>],
               details := [sale_line]\<rparr>"
  by (simp add: scenario_ops_def eval_defs scenario_defs)

lemma traded_pks_ok: "pks_ok traded_db"
  by (simp add: pks_ok_def scenario_defs)

section \<open>What holds of creations and deletions\<close>

text \<open>
  When no operation of a run is turned down by the uniqueness constraint, the run keeps the
  stock consistent: after it, every product's \<^verbatim>\<open>current_stock\<close> is the signed sum of the
  quantities of its remaining ledger lines. Creation attempts that validation rejects may
  occur anywhere in the run.
\<close>

lemma ledger_invariant:
  assumes "pks_ok db" and "stock_consistent db" and "no_integrity_error ops db"
  shows "\<forall>p pr. products (run_ops ops db) p = Some pr \<longrightarrow>
           current_stock pr = ledger_sum (run_ops ops db) p"
  using run_ops_preserves [OF assms] by (simp add: stock_consistent_def)

lemma ledger_invariant_scenario:
  "pks_ok scenario_db \<and> stock_consistent scenario_db
   \<and> no_integrity_error scenario_ops scenario_db
   \<and> stock_of (run_ops scenario_ops scenario_db) 1 = Some (- 400)
   \<and> ledger_sum (run_ops scenario_ops scenario_db) 1 = - 400"
proof -
  have "products (run_ops scenario_ops scenario_db) 1
          = Some (product_A\<lparr>current_stock := - 400\<rparr>)"
    by (simp add: run_scenario)
  with ledger_invariant [OF scenario_pks_ok scenario_consistent scenario_no_integrity_error]
  have "ledger_sum (run_ops scenario_ops scenario_db) 1 = - 400"
    by fastforce
  then show ?thesis
    using scenario_pks_ok scenario_consistent scenario_no_integrity_error
    by (simp add: stock_of_def run_scenario)
qed

text \<open>
  On the creation of a ledger line, a unit price that is supplied overwrites the product's
  stored \<^verbatim>\<open>unit_price\<close>; when none is supplied the product's stored \<^verbatim>\<open>unit_price\<close> is
  left unchanged. In both cases the line is stored with the unit price it was given.
\<close>

lemma unit_price_side_effect:
  assumes "transactions db t = Some tr" and "products db p = Some pr"
    and "TransactionDetail_save (new_line t p q u) db = (Inr k, db')"
  shows "(\<forall>v. u = Some v \<longrightarrow> map_option unit_price (products db' p) = Some v)
       \<and> (u = None \<longrightarrow> map_option unit_price (products db' p) = Some (unit_price pr))
       \<and> (new_line t p q u)\<lparr>pk := Some k\<rparr> \<in> set (details db')
       \<and> detail_unit_price ((new_line t p q u)\<lparr>pk := Some k\<rparr>) = u"
proof -
  let ?line = "(new_line t p q u)\<lparr>pk := Some (new_pk (details db))\<rparr>"
  from assms have k: "k = new_pk (details db)"
    and db': "db' = db\<lparr>products := (products db)(p \<mapsto> moved tr pr q u),
                      details := details db @ [?line]\<rparr>"
    by (auto simp: save_new_eq split: if_splits)
  show ?thesis
    unfolding k db'
    by (simp add: moved_def Let_def new_line_def)
qed

section \<open>The claims\<close>

text \<open>
  C1. For every product, after any sequence of ledger-line creations and deletions run one
  after the other, \<^verbatim>\<open>current_stock\<close> equals the signed sum of the quantities of the
  product's remaining ledger lines (positive for purchase, return and adjustment, negative
  for sale). The code breaks this on a creation that the uniqueness constraint turns
  down, because \<^verbatim>\<open>save\<close> writes the product row before it inserts the line: from product
  A at stock \<open>0\<close> without lines, a purchase line of \<open>10.00\<close> under transaction 1 is created,
  and a second line of \<open>5.00\<close> for the same transaction and product is rejected with
  \<^verbatim>\<open>IntegrityError\<close>; the stock is then \<open>15.00\<close> over a single line of \<open>10.00\<close>.
\<close>

theorem duplicate_creation_breaks_invariant:
  "stock_of scenario_db 1 = Some 0 \<and> ledger_sum scenario_db 1 = 0
   \<and> apply_op (Create 1 1 1000 None) scenario_db = (Inr (), stocked_db)
   \<and> stock_of stocked_db 1 = Some 1000 \<and> ledger_sum stocked_db 1 = 1000
   \<and> fst (apply_op (Create 1 1 500 None) stocked_db) = Inl IntegrityError
   \<and> details (run_ops [Create 1 1 1000 None, Create 1 1 500 None] scenario_db)
       = [purchase_line]
   \<and> stock_of (run_ops [Create 1 1 1000 None, Create 1 1 500 None] scenario_db) 1
       = Some 1500
   \<and> ledger_sum (run_ops [Create 1 1 1000 None, Create 1 1 500 None] scenario_db) 1 = 1000"
  by (simp add: stock_of_def ledger_sum_def lines_of_def signed_quantity_def eval_defs
      scenario_defs)

text \<open>
  C2. Creating a ledger line of quantity \<open>q\<close> under a sale transaction, for a product
  whose \<^verbatim>\<open>current_stock\<close> is below \<open>q\<close>, fails with a validation error that reports the
  available stock, and leaves the database as it was: the product's stock and its ledger
  lines are unchanged. (The transaction is a stored one, so its key is not \<open>0\<close>: \<^verbatim>\<open>clean\<close>
  skips the check for a line whose \<^verbatim>\<open>transaction_id\<close> is false in Python.)
\<close>

theorem sale_over_stock_rejected:
  assumes "transactions db t = Some tr" and "transaction_type tr = ''sale''" and "t \<noteq> 0"
    and "products db p = Some pr" and "current_stock pr < q"
  shows "TransactionDetail_save (new_line t p q u) db =
           (Inl (ValidationError (product_str pr) (current_stock pr) q), db)"
  using assms by (simp add: save_new_eq)

theorem sale_over_stock_rejected_witness:
  "transactions stocked_db 2 = Some sale_tx \<and> transaction_type sale_tx = ''sale''
   \<and> (2::nat) \<noteq> 0
   \<and> products stocked_db 1 = Some (product_A\<lparr>current_stock := 1000\<rparr>)
   \<and> current_stock (product_A\<lparr>current_stock := 1000\<rparr>) < 1500
   \<and> TransactionDetail_save (new_line 2 1 1500 None) stocked_db =
       (Inl (ValidationError ''A (PROD-001)'' 1000 1500), stocked_db)"
proof -
  have t: "transactions stocked_db 2 = Some sale_tx" by (simp add: stocked_db_def)
  have ty: "transaction_type sale_tx = ''sale''" by (simp add: sale_tx_def)
  have n: "(2::nat) \<noteq> 0" by simp
  have p: "products stocked_db 1 = Some (product_A\<lparr>current_stock := 1000\<rparr>)"
    by (simp add: stocked_db_def)
  have s: "current_stock (product_A\<lparr>current_stock := 1000\<rparr>) < 1500" by simp
  from sale_over_stock_rejected [OF t ty n p s, of None] t ty p
  show ?thesis by (simp add: product_str_def product_A_def)
qed

text \<open>
  C3. A successful creation of a ledger line of quantity \<open>q\<close> moves the product's
  \<^verbatim>\<open>current_stock\<close> by exactly \<open>+q\<close> when the transaction's type is purchase, return or
  adjustment, and by exactly \<open>-q\<close> when it is sale. Under a purchase transaction the stock
  check never fails, whatever the stock is, and the creation of a line for a pair
  (transaction, product) that has none yet succeeds and raises the stock by exactly \<open>q\<close>.
\<close>

theorem creation_moves_stock:
  assumes "transactions db t = Some tr" and "products db p = Some pr"
  shows "(\<forall>k db'. TransactionDetail_save (new_line t p q u) db = (Inr k, db') \<longrightarrow>
            (transaction_type tr \<in> {''purchase'', ''return'', ''adjustment''} \<longrightarrow>
               stock_of db' p = Some (current_stock pr + q)) \<and>
            (transaction_type tr = ''sale'' \<longrightarrow>
               stock_of db' p = Some (current_stock pr - q)))
       \<and> (transaction_type tr = ''purchase'' \<longrightarrow>
            TransactionDetail_clean db (new_line t p q u) = Inr () \<and>
            (\<not> violates_unique (details db) (new_line t p q u) \<longrightarrow>
               (\<exists>k db'. TransactionDetail_save (new_line t p q u) db = (Inr k, db') \<and>
                  stock_of db' p = Some (current_stock pr + q))))"
proof -
  have clean: "TransactionDetail_clean db (new_line t p q u) = Inr ()"
    if "transaction_type tr = ''purchase''"
    using that assms
    by (simp add: TransactionDetail_clean_def get_transaction_def new_line_def)
  show ?thesis
    using assms clean
    by (auto simp: save_new_eq stock_of_def current_stock_moved delta_def split: if_splits)
qed

theorem creation_moves_stock_witness:
  "transactions scenario_db 1 = Some purchase_tx \<and> products scenario_db 1 = Some product_A
   \<and> transaction_type purchase_tx = ''purchase''
   \<and> \<not> violates_unique (details scenario_db) (new_line 1 1 1000 None)
   \<and> TransactionDetail_clean scenario_db (new_line 1 1 1000 None) = Inr ()
   \<and> fst (TransactionDetail_save (new_line 1 1 1000 None) scenario_db) = Inr 1
   \<and> stock_of (snd (TransactionDetail_save (new_line 1 1 1000 None) scenario_db)) 1
       = Some 1000
   \<and> transactions stocked_db 2 = Some sale_tx
   \<and> products stocked_db 1 = Some (product_A\<lparr>current_stock := 1000\<rparr>)
   \<and> transaction_type sale_tx = ''sale''
   \<and> fst (TransactionDetail_save (new_line 2 1 400 None) stocked_db) = Inr 2
   \<and> stock_of (snd (TransactionDetail_save (new_line 2 1 400 None) stocked_db)) 1
       = Some 600"
proof -
  have t1: "transactions scenario_db 1 = Some purchase_tx" by (simp add: scenario_db_def)
  have p1: "products scenario_db 1 = Some product_A" by (simp add: scenario_db_def)
  have ty1: "transaction_type purchase_tx = ''purchase''" by (simp add: purchase_tx_def)
  have u1: "\<not> violates_unique (details scenario_db) (new_line 1 1 1000 None)"
    by (simp add: violates_unique_def scenario_db_def)
  have s1: "current_stock product_A = 0" by (simp add: product_A_def)
  have t2: "transactions stocked_db 2 = Some sale_tx" by (simp add: stocked_db_def)
  have p2: "products stocked_db 1 = Some (product_A\<lparr>current_stock := 1000\<rparr>)"
    by (simp add: stocked_db_def)
  have ty2: "transaction_type sale_tx = ''sale''" by (simp add: sale_tx_def)
  have r1: "fst (TransactionDetail_save (new_line 1 1 1000 None) scenario_db) = Inr 1"
    by (simp add: eval_defs scenario_defs)
  have r2: "fst (TransactionDetail_save (new_line 2 1 400 None) stocked_db) = Inr 2"
    by (simp add: eval_defs scenario_defs)
  from creation_moves_stock [OF t1 p1, of 1000 None] ty1 u1 s1
  have c1: "TransactionDetail_clean scenario_db (new_line 1 1 1000 None) = Inr ()"
    and a1: "stock_of (snd (TransactionDetail_save (new_line 1 1 1000 None) scenario_db)) 1
              = Some 1000"
    by auto
  from creation_moves_stock [OF t2 p2, of 400 None] ty2 r2
  have a2: "stock_of (snd (TransactionDetail_save (new_line 2 1 400 None) stocked_db)) 1
              = Some 600"
    by (cases "TransactionDetail_save (new_line 2 1 400 None) stocked_db") auto
  from t1 p1 ty1 u1 c1 r1 a1 t2 p2 ty2 r2 a2 show ?thesis by blast
qed

text \<open>
  C4. Deleting a stored ledger line always succeeds, removes the line and takes back the
  stock contribution of its creation: the quantity is subtracted for a purchase, return or
  adjustment line and added for a sale line; a line deleted right after its creation
  leaves the stock as it was before the creation. Nothing keeps the stock from going
  negative: from stock \<open>0\<close>, a purchase of \<open>10.00\<close> gives \<open>10.00\<close>, a sale of \<open>15.00\<close> is
  rejected and leaves \<open>10.00\<close>, a sale of \<open>4.00\<close> gives \<open>6.00\<close>, and deleting the purchase
  line gives \<open>-4.00\<close>.
\<close>

theorem deletion_reverses:
  "(\<forall>db d p pr t tr.
      pks_ok db \<and> d \<in> set (details db) \<and> product_id d = Some p \<and> products db p = Some pr
      \<and> transaction_id d = Some t \<and> transactions db t = Some tr \<longrightarrow>
      (\<exists>db'. TransactionDetail_delete d db = (Inr (), db')
         \<and> d \<notin> set (details db')
         \<and> (transaction_type tr \<in> {''purchase'', ''return'', ''adjustment''} \<longrightarrow>
              stock_of db' p = Some (current_stock pr - quantity d))
         \<and> (transaction_type tr = ''sale'' \<longrightarrow>
              stock_of db' p = Some (current_stock pr + quantity d))))
   \<and> (\<forall>db t p q u k db1.
        TransactionDetail_save (new_line t p q u) db = (Inr k, db1) \<longrightarrow>
        (\<exists>db2. TransactionDetail_delete ((new_line t p q u)\<lparr>pk := Some k\<rparr>) db1 = (Inr (), db2)
           \<and> stock_of db2 p = stock_of db p))
   \<and> stock_of scenario_db 1 = Some 0
   \<and> stock_of (run_ops (take 1 scenario_ops) scenario_db) 1 = Some 1000
   \<and> fst (apply_op (Create 2 1 1500 None) (run_ops (take 1 scenario_ops) scenario_db))
       = Inl (ValidationError ''A (PROD-001)'' 1000 1500)
   \<and> stock_of (run_ops (take 2 scenario_ops) scenario_db) 1 = Some 1000
   \<and> stock_of (run_ops (take 3 scenario_ops) scenario_db) 1 = Some 600
   \<and> fst (apply_op (Delete 1) (run_ops (take 3 scenario_ops) scenario_db)) = Inr ()
   \<and> stock_of (run_ops scenario_ops scenario_db) 1 = Some (- 400)"
proof -
  have gen: "\<exists>db'. TransactionDetail_delete d db = (Inr (), db')
         \<and> d \<notin> set (details db')
         \<and> (transaction_type tr \<in> {''purchase'', ''return'', ''adjustment''} \<longrightarrow>
              stock_of db' p = Some (current_stock pr - quantity d))
         \<and> (transaction_type tr = ''sale'' \<longrightarrow>
              stock_of db' p = Some (current_stock pr + quantity d))"
    if "pks_ok db" "d \<in> set (details db)" "product_id d = Some p" "products db p = Some pr"
      "transaction_id d = Some t" "transactions db t = Some tr" for db d p pr t tr
  proof -
    from stored_pk [OF that(1,2)] obtain k where "pk d = Some k" ..
    with that show ?thesis
      by (auto simp: delete_eq stock_of_def delta_def)
  qed
  have undo: "\<exists>db2. TransactionDetail_delete ((new_line t p q u)\<lparr>pk := Some k\<rparr>) db1 = (Inr (), db2)
           \<and> stock_of db2 p = stock_of db p"
    if s: "TransactionDetail_save (new_line t p q u) db = (Inr k, db1)" for db t p q u k db1
  proof -
    from s obtain pr where pr: "products db p = Some pr"
      by (cases "products db p") (auto simp: save_new_eq)
    from s pr obtain tr where tr: "transactions db t = Some tr"
      by (cases "transactions db t") (auto simp: save_new_eq)
    from s pr tr have p1: "products db1 p = Some (moved tr pr q u)"
      and t1: "transactions db1 t = Some tr"
      by (auto simp: save_new_eq split: if_splits)
    have pid: "product_id ((new_line t p q u)\<lparr>pk := Some k\<rparr>) = Some p"
      and tid: "transaction_id ((new_line t p q u)\<lparr>pk := Some k\<rparr>) = Some t"
      and qty: "quantity ((new_line t p q u)\<lparr>pk := Some k\<rparr>) = q"
      and key: "pk ((new_line t p q u)\<lparr>pk := Some k\<rparr>) = Some k"
      by (simp_all add: new_line_def)
    show ?thesis
      using pr
      by (simp add: delete_eq pid tid qty key p1 t1 stock_of_def current_stock_moved)
  qed
  have scen: "stock_of scenario_db 1 = Some 0
   \<and> stock_of (run_ops (take 1 scenario_ops) scenario_db) 1 = Some 1000
   \<and> fst (apply_op (Create 2 1 1500 None) (run_ops (take 1 scenario_ops) scenario_db))
       = Inl (ValidationError ''A (PROD-001)'' 1000 1500)
   \<and> stock_of (run_ops (take 2 scenario_ops) scenario_db) 1 = Some 1000
   \<and> stock_of (run_ops (take 3 scenario_ops) scenario_db) 1 = Some 600
   \<and> fst (apply_op (Delete 1) (run_ops (take 3 scenario_ops) scenario_db)) = Inr ()
   \<and> stock_of (run_ops scenario_ops scenario_db) 1 = Some (- 400)"
    unfolding run_scenario_1 run_scenario_2 run_scenario_3 run_scenario
    by (simp add: stock_of_def product_str_def eval_defs scenario_defs)
  from gen undo scen show ?thesis by blast
qed

theorem deletion_reverses_witness:
  "pks_ok traded_db \<and> purchase_line \<in> set (details traded_db)
   \<and> product_id purchase_line = Some 1
   \<and> products traded_db 1 = Some (product_A\<lparr>current_stock := 600\<rparr>)
   \<and> transaction_id purchase_line = Some 1 \<and> transactions traded_db 1 = Some purchase_tx
   \<and> fst (TransactionDetail_delete purchase_line traded_db) = Inr ()
   \<and> purchase_line \<notin> set (details (snd (TransactionDetail_delete purchase_line traded_db)))
   \<and> stock_of (snd (TransactionDetail_delete purchase_line traded_db)) 1 = Some (- 400)
   \<and> fst (TransactionDetail_save (new_line 1 1 1000 None) scenario_db) = Inr 1
   \<and> stock_of (snd (TransactionDetail_delete ((new_line 1 1 1000 None)\<lparr>pk := Some 1\<rparr>)
        (snd (TransactionDetail_save (new_line 1 1 1000 None) scenario_db)))) 1 = Some 0"
proof -
  have h: "pks_ok traded_db \<and> purchase_line \<in> set (details traded_db)
      \<and> product_id purchase_line = Some 1
      \<and> products traded_db 1 = Some (product_A\<lparr>current_stock := 600\<rparr>)
      \<and> transaction_id purchase_line = Some 1 \<and> transactions traded_db 1 = Some purchase_tx"
    using traded_pks_ok by (simp add: traded_db_def purchase_line_def)
  have ty: "transaction_type purchase_tx \<in> {''purchase'', ''return'', ''adjustment''}"
    by (simp add: purchase_tx_def)
  have q: "quantity purchase_line = 1000" by (simp add: purchase_line_def)
  from deletion_reverses h obtain db' where
    d: "TransactionDetail_delete purchase_line traded_db = (Inr (), db')"
    and gone: "purchase_line \<notin> set (details db')"
    and st: "transaction_type purchase_tx \<in> {''purchase'', ''return'', ''adjustment''} \<longrightarrow>
       stock_of db' 1 = Some (current_stock (product_A\<lparr>current_stock := 600\<rparr>)
                                - quantity purchase_line)"
    by blast
  from st ty have "stock_of db' 1 = Some (current_stock (product_A\<lparr>current_stock := 600\<rparr>)
                                - quantity purchase_line)" ..
  with q have st': "stock_of db' 1 = Some (- 400)" by simp
  obtain db1 where s: "TransactionDetail_save (new_line 1 1 1000 None) scenario_db = (Inr 1, db1)"
    by (simp add: eval_defs scenario_defs)
  from deletion_reverses s obtain db2 where
    d2: "TransactionDetail_delete ((new_line 1 1 1000 None)\<lparr>pk := Some 1\<rparr>) db1 = (Inr (), db2)"
    and st2: "stock_of db2 1 = stock_of scenario_db 1"
    by blast
  have "stock_of scenario_db 1 = Some 0"
    by (simp add: stock_of_def scenario_db_def product_A_def)
  with h d gone st' s d2 st2 show ?thesis by simp
qed

text \<open>
  C5. Deleting a transaction removes all of its ledger lines, and after the cascade every
  affected product's \<^verbatim>\<open>current_stock\<close> is what it was before those lines were created.
  The code removes the lines but leaves the stock: with product A at stock \<open>0\<close>, a purchase
  line of \<open>10.00\<close> under transaction 1 raises the stock to \<open>10.00\<close>; when the creator then
  deletes transaction 1 through the view, the line is gone and the stock is still
  \<open>10.00\<close>.
\<close>

theorem cascade_keeps_stock:
  "stock_of scenario_db 1 = Some 0
   \<and> snd (TransactionDetail_save (new_line 1 1 1000 None) scenario_db) = stocked_db
   \<and> stock_of stocked_db 1 = Some 1000
   \<and> details stocked_db = [purchase_line]
   \<and> fst (transaction_delete \<lparr>user = User 7 False, http_method = ''POST''\<rparr> 1 stocked_db)
       = Redirect ''transaction_list''
   \<and> details (snd (snd (transaction_delete \<lparr>user = User 7 False, http_method = ''POST''\<rparr> 1
        stocked_db))) = []
   \<and> stock_of (snd (snd (transaction_delete \<lparr>user = User 7 False, http_method = ''POST''\<rparr> 1
        stocked_db))) 1 = Some 1000"
  by (simp add: stock_of_def transaction_delete_def Transaction_delete_def eval_defs
      scenario_defs)

text \<open>
  C6. A request to delete a transaction by a user who is neither the transaction's creator
  nor staff leaves the database as it was: the transaction, its ledger lines and every
  stock are untouched. Posted by such a user who is logged in, the request is answered
  with the permission error. Posted by the creator or by a staff user, the deletion
  proceeds: the transaction and its ledger lines are removed.
\<close>

theorem transaction_delete_permission:
  assumes "transactions db t = Some tr"
  shows "(\<not> is_staff (user request) \<and> \<not> created_by_is (created_by tr) (user request) \<longrightarrow>
            snd (snd (transaction_delete request t db)) = db)
       \<and> (http_method request = ''POST'' \<and> user request = User uid staff \<longrightarrow>
            (\<not> staff \<and> created_by tr \<noteq> Some uid \<longrightarrow>
               transaction_delete request t db =
                 (Redirect ''transaction_list'',
                  [MessageError ''You do not have permission to delete this transaction''], db))
          \<and> (staff \<or> created_by tr = Some uid \<longrightarrow>
               transaction_delete request t db =
                 (Redirect ''transaction_list'',
                  [MessageSuccess ''Transaction deleted successfully''], Transaction_delete t db)
               \<and> transactions (Transaction_delete t db) t = None
               \<and> (\<forall>r \<in> set (details (Transaction_delete t db)). transaction_id r \<noteq> Some t)))"
proof -
  have "created_by_is c (User uid b) = (c = Some uid)" for c b
    by (cases c) auto
  with assms show ?thesis
    by (auto simp: transaction_delete_def Transaction_delete_def)
qed

theorem transaction_delete_permission_witness:
  "transactions traded_db 1 = Some purchase_tx
   \<and> http_method \<lparr>user = User 8 False, http_method = ''POST''\<rparr> = ''POST''
   \<and> user \<lparr>user = User 8 False, http_method = ''POST''\<rparr> = User 8 False
   \<and> created_by purchase_tx \<noteq> Some 8
   \<and> transaction_delete \<lparr>user = User 8 False, http_method = ''POST''\<rparr> 1 traded_db =
       (Redirect ''transaction_list'',
        [MessageError ''You do not have permission to delete this transaction''], traded_db)
   \<and> snd (snd (transaction_delete \<lparr>user = AnonymousUser, http_method = ''POST''\<rparr> 1 traded_db))
       = traded_db
   \<and> created_by purchase_tx = Some 7
   \<and> fst (snd (transaction_delete \<lparr>user = User 7 False, http_method = ''POST''\<rparr> 1 traded_db))
       = [MessageSuccess ''Transaction deleted successfully'']
   \<and> transactions (snd (snd (transaction_delete
        \<lparr>user = User 7 False, http_method = ''POST''\<rparr> 1 traded_db))) 1 = None
   \<and> details (snd (snd (transaction_delete
        \<lparr>user = User 9 True, http_method = ''POST''\<rparr> 1 traded_db))) = [sale_line]"
proof -
  have t: "transactions traded_db 1 = Some purchase_tx" by (simp add: traded_db_def)
  have c: "created_by purchase_tx = Some 7" by (simp add: purchase_tx_def)
  have d: "details (Transaction_delete 1 traded_db) = [sale_line]"
    by (simp add: Transaction_delete_def scenario_defs)
  from transaction_delete_permission
    [OF t, of "\<lparr>user = User 8 False, http_method = ''POST''\<rparr>" 8 False] c
  have a: "transaction_delete \<lparr>user = User 8 False, http_method = ''POST''\<rparr> 1 traded_db =
       (Redirect ''transaction_list'',
        [MessageError ''You do not have permission to delete this transaction''], traded_db)"
    by simp
  from transaction_delete_permission
    [OF t, of "\<lparr>user = AnonymousUser, http_method = ''POST''\<rparr>"]
  have n: "snd (snd (transaction_delete \<lparr>user = AnonymousUser, http_method = ''POST''\<rparr> 1
             traded_db)) = traded_db"
    by simp
  from transaction_delete_permission
    [OF t, of "\<lparr>user = User 7 False, http_method = ''POST''\<rparr>" 7 False] c
  have b: "transaction_delete \<lparr>user = User 7 False, http_method = ''POST''\<rparr> 1 traded_db =
       (Redirect ''transaction_list'',
        [MessageSuccess ''Transaction deleted successfully''], Transaction_delete 1 traded_db)"
    and b': "transactions (Transaction_delete 1 traded_db) 1 = None"
    by simp_all
  from transaction_delete_permission
    [OF t, of "\<lparr>user = User 9 True, http_method = ''POST''\<rparr>" 9 True]
  have s: "transaction_delete \<lparr>user = User 9 True, http_method = ''POST''\<rparr> 1 traded_db =
       (Redirect ''transaction_list'',
        [MessageSuccess ''Transaction deleted successfully''], Transaction_delete 1 traded_db)"
    by simp
  from t c a n b b' s d show ?thesis by simp
qed

text \<open>
  C7. For every product, the stock report gives as \<^verbatim>\<open>total_in\<close> the sum of the
  quantities of the product's ledger lines whose transaction's type is purchase, return or
  adjustment, and as \<^verbatim>\<open>total_out\<close> the sum of those whose type is sale, in the global
  report and in the stock-movements view of the product; for a product without ledger
  lines both totals are zero in both.
\<close>

theorem report_totals:
  assumes "is_authenticated (user request)" and "products db p = Some pr"
  shows "(\<exists>report. inventory_report request db = Inr report \<and>
            report p = Some (pr,
              Some (total_quantity db [''purchase'', ''return'', ''adjustment''] p),
              Some (total_quantity db [''sale''] p)))
       \<and> get_context_data request p db =
            Inr \<lparr>movements = lines_of db p,
                 total_in = total_quantity db [''purchase'', ''return'', ''adjustment''] p,
                 total_out = total_quantity db [''sale''] p\<rparr>
       \<and> (lines_of db p = [] \<longrightarrow>
            (\<exists>report. inventory_report request db = Inr report \<and>
               report p = Some (pr, Some 0, Some 0)) \<and>
            get_context_data request p db =
              Inr \<lparr>movements = [], total_in = 0, total_out = 0\<rparr>)"
proof -
  have rep: "inventory_report request db =
      Inr (\<lambda>p. case products db p of None \<Rightarrow> None
        | Some pr \<Rightarrow> Some (pr,
            Some (total_quantity db [''purchase'', ''return'', ''adjustment''] p),
            Some (total_quantity db [''sale''] p)))"
    using assms(1) unfolding inventory_report_def Sum_joined_rows by simp
  have ctx: "get_context_data request p db =
            Inr \<lparr>movements = lines_of db p,
                 total_in = total_quantity db [''purchase'', ''return'', ''adjustment''] p,
                 total_out = total_quantity db [''sale''] p\<rparr>"
    using assms unfolding get_context_data_def Let_def or_0_Sum by simp
  have zero: "total_quantity db types p = 0" if "lines_of db p = []" for types
    using that by (simp add: total_quantity_def)
  show ?thesis
    using assms(2) by (simp add: rep ctx zero)
qed

theorem report_totals_witness:
  "is_authenticated (user \<lparr>user = User 7 False, http_method = ''GET''\<rparr>)
   \<and> products traded_db 1 = Some (product_A\<lparr>current_stock := 600\<rparr>)
   \<and> (\<exists>report. inventory_report \<lparr>user = User 7 False, http_method = ''GET''\<rparr> traded_db
          = Inr report
        \<and> report 1 = Some (product_A\<lparr>current_stock := 600\<rparr>, Some 1000, Some 400))
   \<and> get_context_data \<lparr>user = User 7 False, http_method = ''GET''\<rparr> 1 traded_db =
        Inr \<lparr>movements = [purchase_line, sale_line], total_in = 1000, total_out = 400\<rparr>
   \<and> products scenario_db 1 = Some product_A \<and> lines_of scenario_db 1 = []
   \<and> (\<exists>report. inventory_report \<lparr>user = User 7 False, http_method = ''GET''\<rparr> scenario_db
          = Inr report
        \<and> report 1 = Some (product_A, Some 0, Some 0))
   \<and> get_context_data \<lparr>user = User 7 False, http_method = ''GET''\<rparr> 1 scenario_db =
        Inr \<lparr>movements = [], total_in = 0, total_out = 0\<rparr>"
proof -
  let ?rq = "\<lparr>user = User 7 False, http_method = ''GET''\<rparr>"
  have a: "is_authenticated (user ?rq)" by simp
  have p: "products traded_db 1 = Some (product_A\<lparr>current_stock := 600\<rparr>)"
    by (simp add: traded_db_def)
  have l: "lines_of traded_db 1 = [purchase_line, sale_line]"
    by (simp add: lines_of_def scenario_defs)
  have ti: "total_quantity traded_db [''purchase'', ''return'', ''adjustment''] 1 = 1000"
    unfolding total_quantity_def l
    by (simp add: has_type_def get_transaction_def scenario_defs)
  have to: "total_quantity traded_db [''sale''] 1 = 400"
    unfolding total_quantity_def l
    by (simp add: has_type_def get_transaction_def scenario_defs)
  have p0: "products scenario_db 1 = Some product_A" by (simp add: scenario_db_def)
  have l0: "lines_of scenario_db 1 = []" by (simp add: lines_of_def scenario_db_def)
  from report_totals [OF a p]
  have r1: "\<exists>report. inventory_report ?rq traded_db = Inr report
        \<and> report 1 = Some (product_A\<lparr>current_stock := 600\<rparr>, Some 1000, Some 400)"
    and c1: "get_context_data ?rq 1 traded_db =
        Inr \<lparr>movements = [purchase_line, sale_line], total_in = 1000, total_out = 400\<rparr>"
    unfolding l ti to by blast+
  from report_totals [OF a p0] l0
  have r0: "\<exists>report. inventory_report ?rq scenario_db = Inr report
        \<and> report 1 = Some (product_A, Some 0, Some 0)"
    and c0: "get_context_data ?rq 1 scenario_db =
        Inr \<lparr>movements = [], total_in = 0, total_out = 0\<rparr>"
    by blast+
  from a p r1 c1 p0 l0 r0 c0 show ?thesis by blast
qed

text \<open>
  C8. Saving a ledger line that is already stored (an update, for instance of its
  quantity) does not touch the products: every product's \<^verbatim>\<open>current_stock\<close> is after the
  update what it was before, while the stored line is the updated one.
\<close>

theorem update_keeps_stock:
  assumes "r \<in> set (details db)" and "pk r = Some k" and "k \<noteq> 0" and "pk d = Some k"
  shows "products (snd (TransactionDetail_save d db)) = products db
       \<and> (\<forall>db'. TransactionDetail_save d db = (Inr k, db') \<longrightarrow> d \<in> set (details db'))"
  using assms
  by (auto simp: TransactionDetail_save_def py_not_def model_save_products model_save_def
      split: option.splits if_splits)

theorem update_keeps_stock_witness:
  "purchase_line \<in> set (details stocked_db) \<and> pk purchase_line = Some 1 \<and> (1::nat) \<noteq> 0
   \<and> pk (purchase_line\<lparr>quantity := 2500\<rparr>) = Some 1
   \<and> fst (TransactionDetail_save (purchase_line\<lparr>quantity := 2500\<rparr>) stocked_db) = Inr 1
   \<and> details (snd (TransactionDetail_save (purchase_line\<lparr>quantity := 2500\<rparr>) stocked_db))
       = [purchase_line\<lparr>quantity := 2500\<rparr>]
   \<and> stock_of stocked_db 1 = Some 1000
   \<and> stock_of (snd (TransactionDetail_save (purchase_line\<lparr>quantity := 2500\<rparr>) stocked_db)) 1
       = Some 1000"
proof -
  have m: "purchase_line \<in> set (details stocked_db)" by (simp add: stocked_db_def)
  have k: "pk purchase_line = Some 1" by (simp add: purchase_line_def)
  have n: "(1::nat) \<noteq> 0" by simp
  have k': "pk (purchase_line\<lparr>quantity := 2500\<rparr>) = Some 1" by (simp add: purchase_line_def)
  have e: "TransactionDetail_save (purchase_line\<lparr>quantity := 2500\<rparr>) stocked_db =
      (Inr 1, stocked_db\<lparr>details := [purchase_line\<lparr>quantity := 2500\<rparr>]\<rparr>)"
    by (simp add: eval_defs scenario_defs)
  have s: "stock_of stocked_db 1 = Some 1000"
    by (simp add: stock_of_def stocked_db_def)
  from update_keeps_stock [OF m k n k']
  have "products (snd (TransactionDetail_save (purchase_line\<lparr>quantity := 2500\<rparr>) stocked_db))
          = products stocked_db" ..
  then have "stock_of (snd (TransactionDetail_save (purchase_line\<lparr>quantity := 2500\<rparr>) stocked_db)) 1
          = stock_of stocked_db 1"
    by (simp add: stock_of_def)
  with m k n k' s show ?thesis by (simp add: e)
qed

text \<open>
  C9. On the creation of a ledger line, a unit price that is supplied overwrites the
  product's stored \<^verbatim>\<open>unit_price\<close>; when none is supplied, the line's unit price defaults to
  the product's current price and the product's stored \<^verbatim>\<open>unit_price\<close> is left unchanged.
  The code does not apply the default: the form presets the field with the product's price
  and tells the user to leave it blank for that price, but \<^verbatim>\<open>save\<close> stores the line as it
  is given. Created without a unit price for product A, whose price is \<open>2.50\<close>, the line is
  stored with no unit price.
\<close>

theorem unit_price_not_defaulted:
  "map_option unit_price (products scenario_db 1) = Some 250
   \<and> TransactionDetailForm_initial_unit_price scenario_db (new_line 1 1 1000 None) = Inr 250
   \<and> fst (TransactionDetail_save (new_line 1 1 1000 None) scenario_db) = Inr 1
   \<and> map detail_unit_price
        (details (snd (TransactionDetail_save (new_line 1 1 1000 None) scenario_db)))
       = [None]
   \<and> map detail_unit_price
        (details (snd (TransactionDetail_save (new_line 1 1 1000 None) scenario_db)))
       \<noteq> [Some 250]
   \<and> map_option unit_price
        (products (snd (TransactionDetail_save (new_line 1 1 1000 None) scenario_db)) 1)
       = Some 250"
  by (simp add: TransactionDetailForm_initial_unit_price_def eval_defs scenario_defs)

text \<open>
  C10. For a product whose \<^verbatim>\<open>current_stock\<close> \<open>s\<close> is positive, the stock check lets a sale
  line of quantity exactly \<open>s\<close> through (it rejects only a quantity above the stock), the
  creation of the line for a pair (transaction, product) that has none yet succeeds, and
  it leaves the stock at exactly zero.
\<close>

theorem sale_of_whole_stock:
  assumes "transactions db t = Some tr" and "transaction_type tr = ''sale''"
    and "products db p = Some pr" and "0 < current_stock pr"
    and "\<not> violates_unique (details db) (new_line t p (current_stock pr) u)"
  shows "TransactionDetail_clean db (new_line t p (current_stock pr) u) = Inr () \<and>
         (\<exists>k db'. TransactionDetail_save (new_line t p (current_stock pr) u) db = (Inr k, db') \<and>
            stock_of db' p = Some 0)"
proof -
  have "TransactionDetail_clean db (new_line t p (current_stock pr) u) = Inr ()"
    using assms
    by (simp add: TransactionDetail_clean_def get_transaction_def get_product_def new_line_def)
  then show ?thesis
    using assms
    by (auto simp: save_new_eq stock_of_def current_stock_moved delta_def)
qed

theorem sale_of_whole_stock_witness:
  "transactions stocked_db 2 = Some sale_tx \<and> transaction_type sale_tx = ''sale''
   \<and> products stocked_db 1 = Some (product_A\<lparr>current_stock := 1000\<rparr>)
   \<and> 0 < current_stock (product_A\<lparr>current_stock := 1000\<rparr>)
   \<and> \<not> violates_unique (details stocked_db) (new_line 2 1 1000 None)
   \<and> TransactionDetail_clean stocked_db (new_line 2 1 1000 None) = Inr ()
   \<and> fst (TransactionDetail_save (new_line 2 1 1000 None) stocked_db) = Inr 2
   \<and> stock_of (snd (TransactionDetail_save (new_line 2 1 1000 None) stocked_db)) 1 = Some 0"
proof -
  have t: "transactions stocked_db 2 = Some sale_tx" by (simp add: stocked_db_def)
  have ty: "transaction_type sale_tx = ''sale''" by (simp add: sale_tx_def)
  have p: "products stocked_db 1 = Some (product_A\<lparr>current_stock := 1000\<rparr>)"
    by (simp add: stocked_db_def)
  have s: "0 < current_stock (product_A\<lparr>current_stock := 1000\<rparr>)" by simp
  have u: "\<not> violates_unique (details stocked_db) (new_line 2 1 1000 None)"
    by (simp add: violates_unique_def new_line_def scenario_defs)
  have u': "\<not> violates_unique (details stocked_db)
      (new_line 2 1 (current_stock (product_A\<lparr>current_stock := 1000\<rparr>)) None)"
    using u by simp
  have r: "fst (TransactionDetail_save (new_line 2 1 1000 None) stocked_db) = Inr 2"
    by (simp add: eval_defs scenario_defs)
  from sale_of_whole_stock [OF t ty p s u']
  have c: "TransactionDetail_clean stocked_db (new_line 2 1 1000 None) = Inr ()"
    and "\<exists>k db'. TransactionDetail_save (new_line 2 1 1000 None) stocked_db = (Inr k, db')
           \<and> stock_of db' 1 = Some 0"
    by simp_all
  then have z: "stock_of (snd (TransactionDetail_save (new_line 2 1 1000 None) stocked_db)) 1
                 = Some 0"
    by auto
  from t ty p s u c r z show ?thesis by blast
qed

end
